theory Spec2Isabelle
  imports Main "HOL-Library.Word"
begin

section \<open>The buffer pool manager of BusTub\<close>

text \<open>
  The development embeds \<^verbatim>\<open>buffer_pool_manager.cpp\<close>, of which the repository holds two
  versions: the complete one (\<^verbatim>\<open>src/unnamed/part_000\<close>) and an earlier one in which only
  \<^verbatim>\<open>NewPage\<close> is written (\<^verbatim>\<open>src/src/buffer/buffer_pool_manager.cpp\<close>). The functions of the
  complete version keep their names; those of the earlier version carry the suffix \<open>_src\<close>.

  The embedding is sequential: one caller, one operation at a time. Every operation of
  the complete version starts with \<^verbatim>\<open>latch_.lock()\<close> and releases the latch before each
  \<^verbatim>\<open>return\<close> that can be reached, so a call from outside finds the latch free and its
  acquisition is not written out. Three places call a latched operation while the latch
  is held: \<^verbatim>\<open>FetchPage\<close> calls \<^verbatim>\<open>NewPage\<close> on a miss, \<^verbatim>\<open>NewPage\<close> calls \<^verbatim>\<open>FlushPage\<close> for a dirty
  victim, and \<^verbatim>\<open>FlushAllPages\<close> calls \<^verbatim>\<open>FlushPage\<close> for each frame. There the callee's first
  statement acquires a latch its own caller holds and does not return; such a call is
  written \<open>nested\<close>, and an operation that may not return has an \<open>option\<close> result, \<open>None\<close>
  for a call that never returns.

  A \<^verbatim>\<open>Page *\<close> returned by the manager always points into \<^verbatim>\<open>pages_\<close>; it is modelled by the
  index of the frame, and \<^verbatim>\<open>nullptr\<close> by \<open>None\<close>. Frame indices are produced by the
  manager alone (the constructor fills the free list with \<open>0 ..< pool_size\<close>). An index
  outside the array is undefined behaviour in the source; \<open>xs ! i\<close> and \<open>xs[i := v]\<close> say
  nothing useful there, so every theorem that reads a frame assumes its index in range.
\<close>

subsection \<open>Identifiers, pages and the disk\<close>

type_synonym page_id_t = int
type_synonym frame_id_t = nat
type_synonym byte = "8 word"

text \<open>
  Modelled from the spec: the header declaring \<^verbatim>\<open>page_id_t\<close> and \<^verbatim>\<open>INVALID_PAGE_ID\<close> is missing.
  Page identifiers are the non-negative integers, allocated in increasing order, and
  \<open>INVALID\<close> is a reserved sentinel for "no page"; it is placed below every identifier.
\<close>

definition INVALID_PAGE_ID :: page_id_t where
  "INVALID_PAGE_ID = - 1"

text \<open>The members of \<^verbatim>\<open>Page\<close> the manager touches: \<^verbatim>\<open>data_\<close>, \<^verbatim>\<open>page_id_\<close>, \<^verbatim>\<open>pin_count_\<close>, \<^verbatim>\<open>is_dirty_\<close>.\<close>

record Page =
  data :: "byte list"
  page_id :: page_id_t
  pin_count :: int
  is_dirty :: bool

text \<open>
  Modelled from the spec: \<^verbatim>\<open>Page::ResetMemory\<close> is declared in the missing page header; it
  zeroes the frame's byte buffer and leaves the metadata alone.
\<close>

definition ResetMemory :: "Page \<Rightarrow> Page" where
  "ResetMemory pg = pg\<lparr>data := map (\<lambda>_. 0) (data pg)\<rparr>"

text \<open>
  Modelled from the spec: a frame as \<^verbatim>\<open>new Page[pool_size_]\<close> leaves it: free, bound to no
  page, unpinned, clean, its bytes zero. The fixed page size is a parameter.
\<close>

definition new_Page :: "nat \<Rightarrow> Page" where
  "new_Page page_size =
     \<lparr>data = replicate page_size 0, page_id = INVALID_PAGE_ID, pin_count = 0, is_dirty = False\<rparr>"

datatype error = IOError

type_synonym DiskManager = "page_id_t \<rightharpoonup> byte list"

text \<open>
  Modelled from the spec: the disk collaborator (section 6) is block-addressed by page
  identifier. \<open>ReadPage\<close> yields the block's bytes, or \<open>IOError\<close> for a page that is not on
  disk; \<open>WritePage\<close> stores the bytes under the page identifier.
\<close>

definition ReadPage :: "DiskManager \<Rightarrow> page_id_t \<Rightarrow> error + byte list" where
  "ReadPage d p = (case d p of None \<Rightarrow> Inl IOError | Some bytes \<Rightarrow> Inr bytes)"

definition WritePage :: "DiskManager \<Rightarrow> page_id_t \<Rightarrow> byte list \<Rightarrow> DiskManager" where
  "WritePage d p bytes = d(p \<mapsto> bytes)"

definition empty_disk :: DiskManager where
  "empty_disk = Map.empty"

subsection \<open>The replacement policy\<close>

text \<open>
  Modelled from the spec: \<^verbatim>\<open>LRUKReplacer\<close> is not among the sources. Section 4.2 gives its
  state (per frame the K most recent access timestamps, here most recent first; the set of
  frames eligible for eviction, here a list in the order they became eligible; a logical
  clock) and its four operations.
\<close>

record LRUKReplacer =
  replacer_k :: nat
  current_timestamp :: nat
  history :: "frame_id_t \<Rightarrow> nat list"
  evictable :: "frame_id_t list"

definition LRUKReplacer_init :: "nat \<Rightarrow> nat \<Rightarrow> LRUKReplacer" where
  "LRUKReplacer_init num_frames k =
     \<lparr>replacer_k = k, current_timestamp = 0, history = (\<lambda>_. []), evictable = []\<rparr>"

text \<open>
  Modelled from the spec: \<open>RecordAccess\<close> appends the current timestamp to the frame's
  history and keeps at most the K most recent entries.
\<close>

definition RecordAccess :: "LRUKReplacer \<Rightarrow> frame_id_t \<Rightarrow> LRUKReplacer" where
  "RecordAccess r f =
     r\<lparr>history := (history r)(f := take (replacer_k r) (current_timestamp r # history r f)),
       current_timestamp := current_timestamp r + 1\<rparr>"

text \<open>
  Modelled from the spec: \<open>SetEvictable\<close> adds the frame to the eligible set or removes it
  from it.
\<close>

definition SetEvictable :: "LRUKReplacer \<Rightarrow> frame_id_t \<Rightarrow> bool \<Rightarrow> LRUKReplacer" where
  "SetEvictable r f set_evictable =
     (if set_evictable
      then (if f \<in> set (evictable r) then r else r\<lparr>evictable := evictable r @ [f]\<rparr>)
      else r\<lparr>evictable := removeAll f (evictable r)\<rparr>)"

text \<open>
  Modelled from the spec: \<open>Remove\<close> drops the frame from tracking and from the eligible
  set, unconditionally.
\<close>

definition Remove :: "LRUKReplacer \<Rightarrow> frame_id_t \<Rightarrow> LRUKReplacer" where
  "Remove r f = r\<lparr>history := (history r)(f := []), evictable := removeAll f (evictable r)\<rparr>"

text \<open>
  Modelled from the spec: the backward K-distance of a frame is the current timestamp minus
  the timestamp of its K-th most recent access, and infinite (\<open>None\<close>) with fewer than K
  recorded accesses. The oldest recorded access breaks ties; a frame with no recorded
  access counts as older than any other.
\<close>

definition backward_k_distance :: "LRUKReplacer \<Rightarrow> frame_id_t \<Rightarrow> nat option" where
  "backward_k_distance r f =
     (let h = history r f in
      if h = [] \<or> length h < replacer_k r then None
      else Some (current_timestamp r - h ! (replacer_k r - 1)))"

definition earliest_access :: "LRUKReplacer \<Rightarrow> frame_id_t \<Rightarrow> nat" where
  "earliest_access r f = (case history r f of [] \<Rightarrow> 0 | t # ts \<Rightarrow> last (t # ts))"

definition better_victim :: "LRUKReplacer \<Rightarrow> frame_id_t \<Rightarrow> frame_id_t \<Rightarrow> bool" where
  "better_victim r a b =
     (case (backward_k_distance r a, backward_k_distance r b) of
        (None, None) \<Rightarrow> earliest_access r a < earliest_access r b
      | (None, Some db) \<Rightarrow> True
      | (Some da, None) \<Rightarrow> False
      | (Some da, Some db) \<Rightarrow> db < da \<or> (da = db \<and> earliest_access r a < earliest_access r b))"

definition choose_victim :: "LRUKReplacer \<Rightarrow> frame_id_t \<Rightarrow> frame_id_t list \<Rightarrow> frame_id_t" where
  "choose_victim r f fs = foldl (\<lambda>best c. if better_victim r c best then c else best) f fs"

text \<open>
  Modelled from the spec: \<open>Evict\<close> selects the frame of maximal backward K-distance among
  the eligible ones, removes it from the eligible set and returns it; \<open>None\<close> when the
  eligible set is empty.
\<close>

definition Evict :: "LRUKReplacer \<Rightarrow> (frame_id_t \<times> LRUKReplacer) option" where
  "Evict r =
     (case evictable r of
        [] \<Rightarrow> None
      | f # fs \<Rightarrow>
          (let victim = choose_victim r f fs
           in Some (victim, r\<lparr>evictable := removeAll victim (evictable r)\<rparr>)))"

subsection \<open>The manager's state\<close>

text \<open>
  The members of \<^verbatim>\<open>BufferPoolManager\<close> the code reads and writes. The disk behind
  \<^verbatim>\<open>disk_manager_\<close> is carried in the state, so that a write to it is a state change.
\<close>

record BufferPoolManager =
  pool_size :: nat
  pages :: "Page list"
  page_table :: "page_id_t \<rightharpoonup> frame_id_t"
  free_list :: "frame_id_t list"
  replacer :: LRUKReplacer
  next_page_id :: page_id_t
  disk_manager :: DiskManager

text \<open>
  The constructor: \<open>pool_size\<close> fresh pages, a replacer, and every frame in the free list,
  in increasing order. The allocation counter starts at 0 (its initialiser stands in the
  missing header).
\<close>

definition BufferPoolManager_init :: "nat \<Rightarrow> nat \<Rightarrow> nat \<Rightarrow> DiskManager \<Rightarrow> BufferPoolManager" where
  "BufferPoolManager_init page_size n k d =
     \<lparr>pool_size = n,
      pages = replicate n (new_Page page_size),
      page_table = Map.empty,
      free_list = [0 ..< n],
      replacer = LRUKReplacer_init n k,
      next_page_id = 0,
      disk_manager = d\<rparr>"

subsection \<open>The latch\<close>

text \<open>
  Modelled from the spec: \<^verbatim>\<open>latch_\<close> is declared in a header that is not among the sources.
  Section 5 puts one mutual-exclusion region around every operation; the latch is taken
  as a plain lock (a \<^verbatim>\<open>std::mutex\<close>), which the caller that holds it cannot acquire again.
  \<open>lock\<close> is \<^verbatim>\<open>latch_.lock()\<close> by the one caller of the model: on a free latch it returns
  with the latch held, on a latch the caller holds it never returns.
\<close>

datatype latch = Free | Held

definition lock :: "latch \<Rightarrow> latch option" where
  "lock l = (case l of Free \<Rightarrow> Some Held | Held \<Rightarrow> None)"

text \<open>
  A latched operation called from inside another one: its first statement is \<open>lock\<close> on
  the held latch; only if that returns does the call have the result \<open>call\<close> of its body.
\<close>

definition nested :: "'a option \<Rightarrow> 'a option" where
  "nested call = (case lock Held of None \<Rightarrow> None | Some l \<Rightarrow> call)"

subsection \<open>The operations of the complete version\<close>

text \<open>\<^verbatim>\<open>AllocatePage\<close>: \<^verbatim>\<open>return next_page_id_++\<close>.\<close>

definition AllocatePage :: "BufferPoolManager \<Rightarrow> page_id_t \<times> BufferPoolManager" where
  "AllocatePage s = (next_page_id s, s\<lparr>next_page_id := next_page_id s + 1\<rparr>)"

text \<open>
  \<^verbatim>\<open>FlushPage\<close>, called from outside: false without a Page Table entry, false when the
  entry's frame is bound to no page; otherwise the frame's bytes are written under
  \<open>page_id\<close> and its dirty flag is cleared.
\<close>

definition FlushPage :: "page_id_t \<Rightarrow> BufferPoolManager \<Rightarrow> bool \<times> BufferPoolManager" where
  "FlushPage p s =
     (case page_table s p of
        None \<Rightarrow> (False, s)
      | Some target_frame \<Rightarrow>
          if page_id (pages s ! target_frame) = INVALID_PAGE_ID then (False, s)
          else (True,
                s\<lparr>disk_manager := WritePage (disk_manager s) p (data (pages s ! target_frame)),
                  pages := (pages s)[target_frame := (pages s ! target_frame)\<lparr>is_dirty := False\<rparr>]\<rparr>))"

text \<open>
  The first half of \<^verbatim>\<open>NewPage\<close> (the \<^verbatim>\<open>if\<close>/\<^verbatim>\<open>else\<close> on the free list): the frame to use, or
  \<open>None\<close> for it where the source returns \<^verbatim>\<open>nullptr\<close>. A frame taken from the free list is
  left as it is. A victim is reset; when it is dirty, \<^verbatim>\<open>FlushPage\<close> is called first, with
  the latch held.
\<close>

definition NewPage_frame :: "BufferPoolManager \<Rightarrow> (frame_id_t option \<times> BufferPoolManager) option" where
  "NewPage_frame s =
     (case free_list s of
        free_frame # rest \<Rightarrow> Some (Some free_frame, s\<lparr>free_list := rest\<rparr>)
      | [] \<Rightarrow>
          (case Evict (replacer s) of
             None \<Rightarrow> Some (None, s)
           | Some (free_frame, r) \<Rightarrow>
               (let s1 = s\<lparr>replacer := r\<rparr>
                in case (if is_dirty (pages s1 ! free_frame)
                         then nested (Some (FlushPage (page_id (pages s1 ! free_frame)) s1))
                         else Some (True, s1)) of
                     None \<Rightarrow> None
                   | Some flushed \<Rightarrow>
                       (let s2 = snd flushed
                        in if \<not> fst flushed then Some (None, s2)
                           else Some (Some free_frame,
                                  s2\<lparr>pages := (pages s2)[free_frame :=
                                       (ResetMemory (pages s2 ! free_frame))
                                         \<lparr>page_id := INVALID_PAGE_ID, is_dirty := False,
                                          pin_count := 0\<rparr>]\<rparr>)))))"

text \<open>
  \<^verbatim>\<open>NewPage\<close>, called from outside: with a frame in hand, allocate the identifier, bind it
  with pin count 1, install the Page Table entry and mark the frame non-evictable. The
  result is the new page identifier (the out-parameter) and the frame.
\<close>

definition NewPage ::
  "BufferPoolManager \<Rightarrow> ((page_id_t \<times> frame_id_t) option \<times> BufferPoolManager) option" where
  "NewPage s =
     (case NewPage_frame s of
        None \<Rightarrow> None
      | Some (None, s1) \<Rightarrow> Some (None, s1)
      | Some (Some free_frame, s1) \<Rightarrow>
          (let new_page_id = fst (AllocatePage s1);
               s2 = snd (AllocatePage s1)
           in Some (Some (new_page_id, free_frame),
               s2\<lparr>pages := (pages s2)[free_frame :=
                    (pages s2 ! free_frame)\<lparr>page_id := new_page_id, pin_count := 1\<rparr>],
                  page_table := (page_table s2)(new_page_id \<mapsto> free_frame),
                  replacer := SetEvictable (replacer s2) free_frame False\<rparr>)))"

text \<open>
  \<^verbatim>\<open>FetchPage\<close>, called from outside: a Page Table hit increments the pin count and
  returns. On a miss the source calls \<^verbatim>\<open>NewPage(&page_id)\<close> with the latch held; what
  follows that call in the source is kept: \<^verbatim>\<open>NewPage\<close> overwrites \<open>page_id\<close> with the
  identifier it allocates, and that page is read from disk into the frame. The call to
  \<^verbatim>\<open>ReadPage\<close> is a statement; its outcome is not examined, and a failed read leaves the
  buffer as it was.
\<close>

definition FetchPage ::
  "page_id_t \<Rightarrow> BufferPoolManager \<Rightarrow> (frame_id_t option \<times> BufferPoolManager) option" where
  "FetchPage p s =
     (case page_table s p of
        Some target_frame \<Rightarrow>
          Some (Some target_frame,
           s\<lparr>pages := (pages s)[target_frame :=
                (pages s ! target_frame)\<lparr>pin_count := pin_count (pages s ! target_frame) + 1\<rparr>]\<rparr>)
      | None \<Rightarrow>
          (case nested (NewPage s) of
             None \<Rightarrow> None
           | Some (None, s1) \<Rightarrow> Some (None, s1)
           | Some (Some (p', target_frame), s1) \<Rightarrow>
               Some (Some target_frame,
                (case ReadPage (disk_manager s1) p' of
                   Inl e \<Rightarrow> s1
                 | Inr bytes \<Rightarrow>
                     s1\<lparr>pages := (pages s1)[target_frame := (pages s1 ! target_frame)\<lparr>data := bytes\<rparr>]\<rparr>))))"

text \<open>
  \<^verbatim>\<open>UnpinPage\<close>, called from outside: false without an entry or with a pin count of zero
  or less; otherwise the pin count goes down by one, the frame becomes evictable when it
  reaches zero, and the dirty flag is set when \<open>is_dirty\<close> is true.
\<close>

definition UnpinPage :: "page_id_t \<Rightarrow> bool \<Rightarrow> BufferPoolManager \<Rightarrow> bool \<times> BufferPoolManager" where
  "UnpinPage p dirty s =
     (case page_table s p of
        None \<Rightarrow> (False, s)
      | Some unpin_frame \<Rightarrow>
          if pin_count (pages s ! unpin_frame) \<le> 0 then (False, s)
          else
            (let pages1 = (pages s)[unpin_frame :=
                   (pages s ! unpin_frame)\<lparr>pin_count := pin_count (pages s ! unpin_frame) - 1\<rparr>];
                 replacer1 = (if pin_count (pages1 ! unpin_frame) = 0
                              then SetEvictable (replacer s) unpin_frame True
                              else replacer s);
                 pages2 = (if dirty
                           then pages1[unpin_frame := (pages1 ! unpin_frame)\<lparr>is_dirty := True\<rparr>]
                           else pages1)
             in (True, s\<lparr>pages := pages2, replacer := replacer1\<rparr>)))"

text \<open>
  \<^verbatim>\<open>FlushAllPages\<close>, called from outside: for each frame in turn, \<^verbatim>\<open>FlushPage\<close> on the page
  it is bound to, called with the latch held.
\<close>

definition FlushAllPages :: "BufferPoolManager \<Rightarrow> BufferPoolManager option" where
  "FlushAllPages s =
     foldl (\<lambda>acc i. case acc of
                       None \<Rightarrow> None
                     | Some s' \<Rightarrow> map_option snd (nested (Some (FlushPage (page_id (pages s' ! i)) s'))))
       (Some s) [0 ..< pool_size s]"

text \<open>
  \<^verbatim>\<open>DeletePage\<close>, called from outside: true without an entry, false for a pinned page;
  otherwise the frame leaves the replacer and the Page Table, joins the end of the free
  list, and is reset.
\<close>

definition DeletePage :: "page_id_t \<Rightarrow> BufferPoolManager \<Rightarrow> bool \<times> BufferPoolManager" where
  "DeletePage p s =
     (case page_table s p of
        None \<Rightarrow> (True, s)
      | Some delete_frame \<Rightarrow>
          if 0 < pin_count (pages s ! delete_frame) then (False, s)
          else (True,
                s\<lparr>replacer := Remove (replacer s) delete_frame,
                  page_table := (page_table s)(p := None),
                  free_list := free_list s @ [delete_frame],
                  pages := (pages s)[delete_frame :=
                    (ResetMemory ((pages s ! delete_frame)\<lparr>page_id := INVALID_PAGE_ID\<rparr>))
                      \<lparr>pin_count := 0, is_dirty := False\<rparr>]\<rparr>))"

subsection \<open>The earlier version\<close>

text \<open>
  In \<^verbatim>\<open>src/src/buffer/buffer_pool_manager.cpp\<close> only \<^verbatim>\<open>NewPage\<close> is written. \<^verbatim>\<open>FlushPage\<close>, which
  it calls for a dirty victim, is a stub that returns false and does not touch the latch,
  so every call of this \<^verbatim>\<open>NewPage\<close> returns. The identifier is allocated before a frame is
  looked for, and the pin count is set to 1 only when a victim is reset.
\<close>

definition FlushPage_src :: "page_id_t \<Rightarrow> BufferPoolManager \<Rightarrow> bool \<times> BufferPoolManager" where
  "FlushPage_src p s = (False, s)"

definition NewPage_frame_src :: "BufferPoolManager \<Rightarrow> frame_id_t option \<times> BufferPoolManager" where
  "NewPage_frame_src s =
     (case free_list s of
        free_frame # rest \<Rightarrow> (Some free_frame, s\<lparr>free_list := rest\<rparr>)
      | [] \<Rightarrow>
          (case Evict (replacer s) of
             None \<Rightarrow> (None, s)
           | Some (free_frame, r) \<Rightarrow>
               (let s1 = s\<lparr>replacer := r\<rparr>;
                    flushed = (if is_dirty (pages s1 ! free_frame)
                               then FlushPage_src (page_id (pages s1 ! free_frame)) s1
                               else (True, s1));
                    s2 = snd flushed
                in if \<not> fst flushed then (None, s2)
                   else (Some free_frame,
                         s2\<lparr>pages := (pages s2)[free_frame :=
                              (ResetMemory (pages s2 ! free_frame))
                                \<lparr>page_id := INVALID_PAGE_ID, is_dirty := False, pin_count := 1\<rparr>]\<rparr>))))"

definition NewPage_src :: "BufferPoolManager \<Rightarrow> (page_id_t \<times> frame_id_t) option \<times> BufferPoolManager" where
  "NewPage_src s =
     (let new_page_id = fst (AllocatePage s);
          s0 = snd (AllocatePage s)
      in case NewPage_frame_src s0 of
           (None, s1) \<Rightarrow> (None, s1)
         | (Some free_frame, s1) \<Rightarrow>
             (Some (new_page_id, free_frame),
              s1\<lparr>pages := (pages s1)[free_frame := (pages s1 ! free_frame)\<lparr>page_id := new_page_id\<rparr>],
                 page_table := (page_table s1)(new_page_id \<mapsto> free_frame),
                 replacer := SetEvictable (replacer s1) free_frame False\<rparr>))"

subsection \<open>Residency and eligibility\<close>

text \<open>
  Page \<open>p\<close> is resident in frame \<open>f\<close> when the Page Table maps \<open>p\<close> to \<open>f\<close> and frame \<open>f\<close> is
  bound to \<open>p\<close> (section 3 of the spec: every entry's target frame carries the key as its
  bound page identifier).
\<close>

definition resident_at :: "BufferPoolManager \<Rightarrow> page_id_t \<Rightarrow> frame_id_t \<Rightarrow> bool" where
  "resident_at s p f \<longleftrightarrow>
     page_table s p = Some f \<and> f < length (pages s) \<and> page_id (pages s ! f) = p \<and>
     p \<noteq> INVALID_PAGE_ID"

text \<open>A frame is selectable by \<open>Evict\<close> when it is in the replacer's eligible set.\<close>

definition selectable :: "BufferPoolManager \<Rightarrow> frame_id_t \<Rightarrow> bool" where
  "selectable s f \<longleftrightarrow> f \<in> set (evictable (replacer s))"

subsection \<open>Scenario states\<close>

text \<open>
  A pool of one frame with pages of two bytes, \<open>K = 2\<close> and an empty disk (\<open>pool1\<close>); then
  page 0 created; then page 0 unpinned. From there either page 0 is fetched again
  (\<open>pool1_refetched\<close>), or page 1 is created, which evicts the clean page 0
  (\<open>pool1_evicted\<close>), and then unpinned; then page 1 is deleted, page 0 is fetched again
  and unpinned dirty (\<open>pool1_stale\<close>). \<open>pool1_disk\<close> is the fresh pool over a disk that
  holds pages 0 and 5, and \<open>pool1_disk_evicted\<close> is reached from it as \<open>pool1_evicted\<close> is
  from \<open>pool1\<close>. No call on these paths is made with the latch held.
\<close>

definition pool1 :: BufferPoolManager where
  "pool1 = BufferPoolManager_init 2 1 2 empty_disk"

definition pool1_created :: BufferPoolManager where
  "pool1_created = snd (the (NewPage pool1))"

definition pool1_unpinned :: BufferPoolManager where
  "pool1_unpinned = snd (UnpinPage 0 False pool1_created)"

definition pool1_refetched :: BufferPoolManager where
  "pool1_refetched = snd (the (FetchPage 0 pool1_unpinned))"

definition pool1_evicted :: BufferPoolManager where
  "pool1_evicted = snd (the (NewPage pool1_unpinned))"

definition pool1_both_unpinned :: BufferPoolManager where
  "pool1_both_unpinned = snd (UnpinPage 1 False pool1_evicted)"

definition pool1_stale :: BufferPoolManager where
  "pool1_stale =
     snd (UnpinPage 0 True (snd (the (FetchPage 0 (snd (DeletePage 1 pool1_both_unpinned))))))"

definition disk_0_5 :: DiskManager where
  "disk_0_5 = empty_disk(0 \<mapsto> [1, 1], 5 \<mapsto> [5, 5])"

definition pool1_disk :: BufferPoolManager where
  "pool1_disk = BufferPoolManager_init 2 1 2 disk_0_5"

definition pool1_disk_evicted :: BufferPoolManager where
  "pool1_disk_evicted =
     snd (the (NewPage (snd (UnpinPage 0 False (snd (the (NewPage pool1_disk)))))))"

section \<open>Basic facts\<close>

lemmas replacer_defs = LRUKReplacer_init_def SetEvictable_def Remove_def Evict_def choose_victim_def
  better_victim_def backward_k_distance_def earliest_access_def

lemmas manager_defs = BufferPoolManager_init_def new_Page_def ResetMemory_def AllocatePage_def
  NewPage_frame_def NewPage_def FlushPage_def FetchPage_def UnpinPage_def DeletePage_def
  ReadPage_def WritePage_def empty_disk_def INVALID_PAGE_ID_def

subsection \<open>Calls with the latch held\<close>

lemma nested_never_returns: "nested call = None"
  by (simp add: nested_def lock_def)

lemma lock_Free: "lock Free = Some Held"
  by (simp add: lock_def)

text \<open>\<^verbatim>\<open>FetchPage\<close> on a page without a Page Table entry never returns.\<close>

lemma FetchPage_no_entry: "page_table s p = None \<Longrightarrow> FetchPage p s = None"
  by (simp add: FetchPage_def nested_never_returns)


text \<open>\<^verbatim>\<open>NewPage\<close> with a dirty victim never returns.\<close>

lemma NewPage_dirty_victim:
  assumes "free_list s = []" and "Evict (replacer s) = Some (v, r)" and "is_dirty (pages s ! v)"
  shows "NewPage s = None"
  using assms by (simp add: NewPage_def NewPage_frame_def nested_never_returns)

text \<open>\<^verbatim>\<open>FlushAllPages\<close> returns for the empty pool only.\<close>

lemma FlushAllPages_returns: "FlushAllPages s = (if pool_size s = 0 then Some s else None)"
proof -
  have stuck: "foldl (\<lambda>acc i. case acc of
                       None \<Rightarrow> None
                     | Some s' \<Rightarrow> map_option snd (nested (Some (FlushPage (page_id (pages s' ! i)) s'))))
                 None is = None" for "is" :: "nat list"
    by (induction "is") simp_all
  show ?thesis
  proof (cases "pool_size s")
    case 0
    then show ?thesis by (simp add: FlushAllPages_def)
  next
    case (Suc n)
    then show ?thesis
      by (simp add: FlushAllPages_def upt_conv_Cons nested_never_returns stuck del: upt_Suc)
  qed
qed

subsection \<open>The scenario states, computed\<close>

lemma pool1_eq:
  "pool1 =
     \<lparr>pool_size = 1,
      pages = [\<lparr>data = [0, 0], page_id = - 1, pin_count = 0, is_dirty = False\<rparr>],
      page_table = Map.empty, free_list = [0],
      replacer = \<lparr>replacer_k = 2, current_timestamp = 0, history = (\<lambda>_. []), evictable = []\<rparr>,
      next_page_id = 0, disk_manager = Map.empty\<rparr>"
  by (simp add: pool1_def manager_defs replacer_defs numeral_2_eq_2)

lemma pool1_created_eq:
  "pool1_created =
     \<lparr>pool_size = 1,
      pages = [\<lparr>data = [0, 0], page_id = 0, pin_count = 1, is_dirty = False\<rparr>],
      page_table = [0 \<mapsto> 0], free_list = [],
      replacer = \<lparr>replacer_k = 2, current_timestamp = 0, history = (\<lambda>_. []), evictable = []\<rparr>,
      next_page_id = 1, disk_manager = Map.empty\<rparr>"
  by (simp add: pool1_created_def pool1_eq manager_defs replacer_defs)

lemma pool1_unpinned_eq:
  "pool1_unpinned =
     \<lparr>pool_size = 1,
      pages = [\<lparr>data = [0, 0], page_id = 0, pin_count = 0, is_dirty = False\<rparr>],
      page_table = [0 \<mapsto> 0], free_list = [],
      replacer = \<lparr>replacer_k = 2, current_timestamp = 0, history = (\<lambda>_. []), evictable = [0]\<rparr>,
      next_page_id = 1, disk_manager = Map.empty\<rparr>"
  by (simp add: pool1_unpinned_def pool1_created_eq manager_defs replacer_defs)

lemma pool1_refetched_eq:
  "pool1_refetched =
     \<lparr>pool_size = 1,
      pages = [\<lparr>data = [0, 0], page_id = 0, pin_count = 1, is_dirty = False\<rparr>],
      page_table = [0 \<mapsto> 0], free_list = [],
      replacer = \<lparr>replacer_k = 2, current_timestamp = 0, history = (\<lambda>_. []), evictable = [0]\<rparr>,
      next_page_id = 1, disk_manager = Map.empty\<rparr>"
  by (simp add: pool1_refetched_def pool1_unpinned_eq manager_defs replacer_defs)

lemma pool1_evicted_eq:
  "pool1_evicted =
     \<lparr>pool_size = 1,
      pages = [\<lparr>data = [0, 0], page_id = 1, pin_count = 1, is_dirty = False\<rparr>],
      page_table = [0 \<mapsto> 0, 1 \<mapsto> 0], free_list = [],
      replacer = \<lparr>replacer_k = 2, current_timestamp = 0, history = (\<lambda>_. []), evictable = []\<rparr>,
      next_page_id = 2, disk_manager = Map.empty\<rparr>"
  by (simp add: pool1_evicted_def pool1_unpinned_eq manager_defs replacer_defs)

lemma pool1_both_unpinned_eq:
  "pool1_both_unpinned =
     \<lparr>pool_size = 1,
      pages = [\<lparr>data = [0, 0], page_id = 1, pin_count = 0, is_dirty = False\<rparr>],
      page_table = [0 \<mapsto> 0, 1 \<mapsto> 0], free_list = [],
      replacer = \<lparr>replacer_k = 2, current_timestamp = 0, history = (\<lambda>_. []), evictable = [0]\<rparr>,
      next_page_id = 2, disk_manager = Map.empty\<rparr>"
  by (simp add: pool1_both_unpinned_def pool1_evicted_eq manager_defs replacer_defs)

lemma pool1_stale_eq:
  "pool1_stale =
     \<lparr>pool_size = 1,
      pages = [\<lparr>data = [0, 0], page_id = - 1, pin_count = 0, is_dirty = True\<rparr>],
      page_table = [0 \<mapsto> 0], free_list = [0],
      replacer = \<lparr>replacer_k = 2, current_timestamp = 0, history = (\<lambda>_. []), evictable = [0]\<rparr>,
      next_page_id = 2, disk_manager = Map.empty\<rparr>"
  apply (simp add: pool1_stale_def pool1_both_unpinned_eq manager_defs replacer_defs)
  apply (rule ext)
  apply simp
  done

lemma pool1_disk_eq:
  "pool1_disk =
     \<lparr>pool_size = 1,
      pages = [\<lparr>data = [0, 0], page_id = - 1, pin_count = 0, is_dirty = False\<rparr>],
      page_table = Map.empty, free_list = [0],
      replacer = \<lparr>replacer_k = 2, current_timestamp = 0, history = (\<lambda>_. []), evictable = []\<rparr>,
      next_page_id = 0, disk_manager = disk_0_5\<rparr>"
  by (simp add: pool1_disk_def manager_defs replacer_defs numeral_2_eq_2)

lemma pool1_disk_evicted_eq:
  "pool1_disk_evicted =
     \<lparr>pool_size = 1,
      pages = [\<lparr>data = [0, 0], page_id = 1, pin_count = 1, is_dirty = False\<rparr>],
      page_table = [0 \<mapsto> 0, 1 \<mapsto> 0], free_list = [],
      replacer = \<lparr>replacer_k = 2, current_timestamp = 0, history = (\<lambda>_. []), evictable = []\<rparr>,
      next_page_id = 2, disk_manager = disk_0_5\<rparr>"
  by (simp add: pool1_disk_evicted_def pool1_disk_eq manager_defs replacer_defs)

lemma NewPage_pool1: "NewPage pool1 = Some (Some (0, 0), pool1_created)"
  by (simp add: pool1_created_def) (simp add: pool1_eq manager_defs replacer_defs)

lemma Evict_pool1_unpinned:
  "Evict (replacer pool1_unpinned) =
     Some (0, \<lparr>replacer_k = 2, current_timestamp = 0, history = (\<lambda>_. []), evictable = []\<rparr>)"
  by (simp add: pool1_unpinned_eq replacer_defs)

subsection \<open>What the operations do for a page with or without an entry\<close>

lemma FlushPage_frame:
  "page_table (snd (FlushPage p s)) = page_table s"
  "free_list (snd (FlushPage p s)) = free_list s"
  "replacer (snd (FlushPage p s)) = replacer s"
  "next_page_id (snd (FlushPage p s)) = next_page_id s"
  "pool_size (snd (FlushPage p s)) = pool_size s"
  "length (pages (snd (FlushPage p s))) = length (pages s)"
  by (simp_all add: FlushPage_def split: option.splits)

text \<open>
  What \<^verbatim>\<open>FlushPage\<close> does for a resident page, whatever its pin count, and for a page
  without a Page Table entry.
\<close>

lemma FlushPage_resident_or_no_entry:
  "(resident_at s p f \<longrightarrow>
      FlushPage p s =
        (True, s\<lparr>disk_manager := WritePage (disk_manager s) p (data (pages s ! f)),
                 pages := (pages s)[f := (pages s ! f)\<lparr>is_dirty := False\<rparr>]\<rparr>) \<and>
      disk_manager (snd (FlushPage p s)) p = Some (data (pages s ! f)) \<and>
      \<not> is_dirty (pages (snd (FlushPage p s)) ! f) \<and>
      pin_count (pages (snd (FlushPage p s)) ! f) = pin_count (pages s ! f)) \<and>
   (page_table s p = None \<longrightarrow> FlushPage p s = (False, s))"
  by (simp add: resident_at_def FlushPage_def WritePage_def)

lemma UnpinPage_pin_count:
  assumes "page_table s p = Some f" "f < length (pages s)" "0 < pin_count (pages s ! f)"
  shows "fst (UnpinPage p d s) = True"
    and "pin_count (pages (snd (UnpinPage p d s)) ! f) = pin_count (pages s ! f) - 1"
    and "page_table (snd (UnpinPage p d s)) = page_table s"
    and "length (pages (snd (UnpinPage p d s))) = length (pages s)"
    and "is_dirty (pages (snd (UnpinPage p d s)) ! f) = (d \<or> is_dirty (pages s ! f))"
  using assms by (simp_all add: UnpinPage_def Let_def)

lemma UnpinPage_other_frames:
  "g \<noteq> f \<Longrightarrow> page_table s p = Some f \<Longrightarrow> pages (snd (UnpinPage p d s)) ! g = pages s ! g"
  by (simp add: UnpinPage_def Let_def)

text \<open>
  \<^verbatim>\<open>UnpinPage\<close> refuses, and changes nothing, for a page without a Page Table entry and for
  an entry whose frame has a pin count of zero or less.
\<close>

lemma UnpinPage_refusals:
  "page_table s p = None \<Longrightarrow> UnpinPage p d s = (False, s)"
  "page_table s p = Some f \<Longrightarrow> pin_count (pages s ! f) \<le> 0 \<Longrightarrow> UnpinPage p d s = (False, s)"
  by (simp_all add: UnpinPage_def)

text \<open>\<^verbatim>\<open>UnpinPage\<close> never takes a pin count below zero.\<close>

lemma UnpinPage_pin_count_nonneg:
  assumes nonneg: "\<forall>g < length (pages s). 0 \<le> pin_count (pages s ! g)"
  shows "\<forall>g < length (pages (snd (UnpinPage p d s))).
           0 \<le> pin_count (pages (snd (UnpinPage p d s)) ! g)"
proof (cases "page_table s p")
  case None
  with nonneg show ?thesis by (simp add: UnpinPage_def)
next
  case (Some u)
  show ?thesis
  proof (cases "pin_count (pages s ! u) \<le> 0")
    case True
    with Some nonneg show ?thesis by (simp add: UnpinPage_def)
  next
    case False
    show ?thesis
    proof (intro allI impI)
      fix g
      assume "g < length (pages (snd (UnpinPage p d s)))"
      with Some False have g: "g < length (pages s)"
        by (simp add: UnpinPage_def Let_def split: if_splits)
      show "0 \<le> pin_count (pages (snd (UnpinPage p d s)) ! g)"
      proof (cases "g = u")
        case True
        with Some False g show ?thesis by (simp add: UnpinPage_pin_count)
      next
        case neq: False
        with Some nonneg g show ?thesis by (simp add: UnpinPage_other_frames)
      qed
    qed
  qed
qed

text \<open>\<^verbatim>\<open>DeletePage\<close> returns true and changes nothing for a page without a Page Table entry.\<close>

lemma DeletePage_no_entry: "page_table s p = None \<Longrightarrow> DeletePage p s = (True, s)"
  by (simp add: DeletePage_def)

lemma Page_update_swap:
  "(pg :: Page)\<lparr>pin_count := a, page_id := b\<rparr> = pg\<lparr>page_id := b, pin_count := a\<rparr>"
  by (cases pg) simp

subsection \<open>The replacer's victim\<close>

lemma choose_victim_mem: "choose_victim r f fs \<in> set (f # fs)"
proof -
  have "foldl (\<lambda>best c. if better_victim r c best then c else best) f fs \<in> insert f (set fs)"
    by (induction fs arbitrary: f) auto
  then show ?thesis by (simp add: choose_victim_def)
qed

lemma Evict_Some:
  assumes "Evict r = Some (f, r')"
  shows "f \<in> set (evictable r) \<and> r' = r\<lparr>evictable := removeAll f (evictable r)\<rparr>"
proof -
  from assms obtain x xs where ev: "evictable r = x # xs" and f: "f = choose_victim r x xs"
    and r': "r' = r\<lparr>evictable := removeAll f (evictable r)\<rparr>"
    by (auto simp: Evict_def Let_def split: list.splits)
  from ev f have "f \<in> set (evictable r)" using choose_victim_mem [of r x xs] by simp
  with r' show ?thesis by simp
qed

lemma Evict_None: "Evict r = None \<longleftrightarrow> evictable r = []"
  by (simp add: Evict_def Let_def split: list.splits)

text \<open>
  Property P4 of the spec with \<open>K = 2\<close>: frame 0 was accessed once, frame 1 twice and later,
  both are eligible (frame 1 first); the victim is frame 0.
\<close>

lemma Evict_prefers_short_history:
  "fst (the (Evict (SetEvictable (SetEvictable
      (RecordAccess (RecordAccess (RecordAccess (LRUKReplacer_init 2 2) 0) 1) 1) 1 True) 0 True))) = 0"
  by (simp add: RecordAccess_def replacer_defs Let_def)

subsection \<open>Frame acquisition and NewPage\<close>

lemma NewPage_frame_free:
  "free_list s = f # rest \<Longrightarrow> NewPage_frame s = Some (Some f, s\<lparr>free_list := rest\<rparr>)"
  by (simp add: NewPage_frame_def)

lemma NewPage_frame_none:
  "free_list s = [] \<Longrightarrow> Evict (replacer s) = None \<Longrightarrow> NewPage_frame s = Some (None, s)"
  by (simp add: NewPage_frame_def)

lemma NewPage_frame_victim:
  assumes "free_list s = []" and "Evict (replacer s) = Some (v, r)"
  shows "NewPage_frame s =
           (if is_dirty (pages s ! v) then None
            else Some (Some v,
                   s\<lparr>replacer := r,
                     pages := (pages s)[v := (ResetMemory (pages s ! v))
                       \<lparr>page_id := INVALID_PAGE_ID, is_dirty := False, pin_count := 0\<rparr>]\<rparr>))"
  using assms by (simp add: NewPage_frame_def nested_never_returns)

lemma NewPage_frame_Some:
  assumes "NewPage_frame s = Some (Some f, s1)"
  shows "free_list s1 = tl (free_list s)"
    and "page_table s1 = page_table s"
    and "next_page_id s1 = next_page_id s"
    and "length (pages s1) = length (pages s)"
    and "free_list s = [] \<Longrightarrow> f \<in> set (evictable (replacer s)) \<and>
           replacer s1 = (replacer s)\<lparr>evictable := removeAll f (evictable (replacer s))\<rparr>"
proof -
  have "free_list s1 = tl (free_list s) \<and> page_table s1 = page_table s \<and>
        next_page_id s1 = next_page_id s \<and> length (pages s1) = length (pages s) \<and>
        (free_list s = [] \<longrightarrow> f \<in> set (evictable (replacer s)) \<and>
           replacer s1 = (replacer s)\<lparr>evictable := removeAll f (evictable (replacer s))\<rparr>)"
  proof (cases "free_list s")
    case (Cons x xs)
    with assms show ?thesis by (auto simp: NewPage_frame_free)
  next
    case Nil
    show ?thesis
    proof (cases "Evict (replacer s)")
      case None
      with Nil assms show ?thesis by (simp add: NewPage_frame_none)
    next
      case (Some vr)
      obtain v r where "vr = (v, r)" by (cases vr)
      with Some have ev: "Evict (replacer s) = Some (v, r)" by simp
      from assms Nil ev Evict_Some [OF ev] show ?thesis
        by (auto simp: NewPage_frame_victim split: if_splits)
    qed
  qed
  then show "free_list s1 = tl (free_list s)" and "page_table s1 = page_table s"
    and "next_page_id s1 = next_page_id s" and "length (pages s1) = length (pages s)"
    and "free_list s = [] \<Longrightarrow> f \<in> set (evictable (replacer s)) \<and>
           replacer s1 = (replacer s)\<lparr>evictable := removeAll f (evictable (replacer s))\<rparr>"
    by simp_all
qed

text \<open>
  What a \<open>NewPage\<close> of the complete version that returns a frame establishes on either
  path: the identifier is the counter's value, the free list lost at most its head, the
  entry is installed, the frame is bound with pin count 1 and is not eligible for
  eviction.
\<close>

lemma NewPage_Some:
  assumes "NewPage s = Some (Some (q, f), s1)"
  shows "q = next_page_id s"
    and "next_page_id s1 = next_page_id s + 1"
    and "free_list s1 = tl (free_list s)"
    and "page_table s1 = (page_table s)(q \<mapsto> f)"
    and "length (pages s1) = length (pages s)"
    and "f \<notin> set (evictable (replacer s1))"
    and "f < length (pages s) \<Longrightarrow> page_id (pages s1 ! f) = q \<and> pin_count (pages s1 ! f) = 1"
proof -
  from assms obtain s0 where fr: "NewPage_frame s = Some (Some f, s0)"
    by (cases "NewPage_frame s") (auto simp: NewPage_def Let_def split: option.splits)
  define s2 where "s2 = snd (AllocatePage s0)"
  from assms fr have q: "q = fst (AllocatePage s0)"
    by (simp add: NewPage_def Let_def)
  from assms fr have s1: "s1 = s2\<lparr>pages := (pages s2)[f :=
                    (pages s2 ! f)\<lparr>page_id := q, pin_count := 1\<rparr>],
                  page_table := (page_table s2)(q \<mapsto> f),
                  replacer := SetEvictable (replacer s2) f False\<rparr>"
    by (auto simp: NewPage_def Let_def s2_def)
  have A: "next_page_id s2 = next_page_id s0 + 1" "free_list s2 = free_list s0"
    "page_table s2 = page_table s0" "length (pages s2) = length (pages s0)"
    by (simp_all add: s2_def AllocatePage_def)
  note F = NewPage_frame_Some(1-4) [OF fr]
  from q F show "q = next_page_id s" by (simp add: AllocatePage_def)
  from s1 F A show "next_page_id s1 = next_page_id s + 1" by simp
  from s1 F A show "free_list s1 = tl (free_list s)" by simp
  from s1 F A show "page_table s1 = (page_table s)(q \<mapsto> f)" by simp
  from s1 F A show "length (pages s1) = length (pages s)" by simp
  from s1 show "f \<notin> set (evictable (replacer s1))" by (simp add: SetEvictable_def)
  from s1 F A show "page_id (pages s1 ! f) = q \<and> pin_count (pages s1 ! f) = 1"
    if "f < length (pages s)" using that by simp
qed

text \<open>On neither path does \<open>NewPage\<close> take an entry out of the Page Table.\<close>

lemma NewPage_removes_no_entry:
  assumes "NewPage s = Some (Some (n, v), s1)" and "page_table s q = Some f"
    and "q \<noteq> next_page_id s"
  shows "page_table s1 q = Some f"
  using NewPage_Some(1,4) [OF assms(1)] assms(2,3) by simp

subsection \<open>The two versions of NewPage, path by path\<close>

lemma NewPage_src_free:
  assumes "free_list s = f # rest"
  shows "NewPage s \<noteq> None"
    and "fst (NewPage_src s) = fst (the (NewPage s))"
    and "snd (the (NewPage s)) =
          (snd (NewPage_src s))\<lparr>pages := (pages (snd (NewPage_src s)))
             [f := (pages (snd (NewPage_src s)) ! f)\<lparr>pin_count := 1\<rparr>]\<rparr>"
proof -
  from assms show "NewPage s \<noteq> None"
    by (simp add: NewPage_def NewPage_frame_def Let_def)
  from assms show "fst (NewPage_src s) = fst (the (NewPage s))"
    by (simp add: NewPage_src_def NewPage_frame_src_def NewPage_def NewPage_frame_def
        AllocatePage_def Let_def)
  show "snd (the (NewPage s)) =
          (snd (NewPage_src s))\<lparr>pages := (pages (snd (NewPage_src s)))
             [f := (pages (snd (NewPage_src s)) ! f)\<lparr>pin_count := 1\<rparr>]\<rparr>"
  proof (cases "f < length (pages s)")
    case True
    with assms show ?thesis
      by (simp add: NewPage_src_def NewPage_frame_src_def NewPage_def NewPage_frame_def
          AllocatePage_def Let_def)
  next
    case False
    with assms show ?thesis
      by (simp add: NewPage_src_def NewPage_frame_src_def NewPage_def NewPage_frame_def
          AllocatePage_def Let_def list_update_beyond)
  qed
qed

lemma NewPage_src_busy:
  assumes "free_list s = []" and "Evict (replacer s) = None"
  shows "NewPage s = Some (None, s)"
    and "NewPage_src s = (None, s\<lparr>next_page_id := next_page_id s + 1\<rparr>)"
  using assms
  by (simp_all add: NewPage_src_def NewPage_frame_src_def NewPage_def NewPage_frame_def
      AllocatePage_def Let_def)

lemma NewPage_src_clean_victim:
  assumes "free_list s = []" and "Evict (replacer s) = Some (f, r)" and "\<not> is_dirty (pages s ! f)"
  shows "NewPage s = Some (NewPage_src s)"
proof (cases "f < length (pages s)")
  case True
  with assms show ?thesis
    by (simp add: NewPage_src_def NewPage_frame_src_def NewPage_def NewPage_frame_def
        AllocatePage_def Let_def Page_update_swap)
next
  case False
  with assms show ?thesis
    by (simp add: NewPage_src_def NewPage_frame_src_def NewPage_def NewPage_frame_def
        AllocatePage_def Let_def list_update_beyond)
qed

text \<open>
  A dirty victim stops the earlier version with \<^verbatim>\<open>nullptr\<close>: its \<open>FlushPage\<close> returns false.
  (The complete version does not return there, by \<open>NewPage_dirty_victim\<close>.)
\<close>

lemma NewPage_src_dirty_victim:
  assumes "free_list s = []" and "Evict (replacer s) = Some (v, r)" and "is_dirty (pages s ! v)"
  shows "fst (NewPage_src s) = None"
  using assms
  by (simp add: NewPage_src_def NewPage_frame_src_def FlushPage_src_def AllocatePage_def Let_def)

section \<open>The claims\<close>

subsection \<open>C1: the Page Table under eviction\<close>

text \<open>
  C1 states that the Page Table stays bijective under every public operation, and that
  \<open>NewPage\<close> removes the victim's entry before it rebinds the frame. The code does not: in
  a pool of one frame, after page 0 is created and unpinned, \<open>NewPage\<close> evicts frame 0,
  returns page 1 in it, and leaves the entry of page 0 in place. The Page Table then maps
  both 0 and 1 to frame 0, whose bound page identifier is 1. \<open>DeletePage\<close> erases the entry
  of the page it removes; the eviction path of \<open>NewPage\<close> has no such step.
\<close>

theorem NewPage_evict_keeps_victim_entry:
  "map_option fst (NewPage pool1_unpinned) = Some (Some (1, 0)) \<and>
   page_table (snd (the (NewPage pool1_unpinned))) 0 = Some 0 \<and>
   page_table (snd (the (NewPage pool1_unpinned))) 1 = Some 0 \<and>
   page_id (pages (snd (the (NewPage pool1_unpinned))) ! 0) = 1"
  by (simp add: pool1_unpinned_eq manager_defs replacer_defs)

subsection \<open>C2: FetchPage on a page that is not resident\<close>

text \<open>
  C2 states that a successful \<open>FetchPage p\<close> on a non-resident \<open>p\<close> obtains a frame, reads
  the bytes of \<open>p\<close> into it, binds \<open>p\<close> with pin count 1 and returns that frame. In the code
  a \<open>FetchPage\<close> of a non-resident page returns only through a Page Table entry that
  eviction left behind. Over a disk that holds page 0, after page 0 is created and
  unpinned and page 1 is created in its frame, page 0 is not resident; \<open>FetchPage 0\<close>
  returns frame 0, which is bound to page 1, with pin count 2 and the bytes it had, not
  those of page 0 on disk. Without an entry (page 5 on the fresh pool) \<open>FetchPage\<close> calls
  \<open>NewPage\<close> with the latch held and never returns.
\<close>

theorem FetchPage_of_evicted_page:
  "\<not> resident_at pool1_disk_evicted 0 0 \<and>
   ReadPage (disk_manager pool1_disk_evicted) 0 = Inr [1, 1] \<and>
   map_option fst (FetchPage 0 pool1_disk_evicted) = Some (Some 0) \<and>
   page_id (pages (snd (the (FetchPage 0 pool1_disk_evicted))) ! 0) = 1 \<and>
   pin_count (pages (snd (the (FetchPage 0 pool1_disk_evicted))) ! 0) = 2 \<and>
   data (pages (snd (the (FetchPage 0 pool1_disk_evicted))) ! 0) = [0, 0] \<and>
   page_table pool1_disk 5 = None \<and> FetchPage 5 pool1_disk = None"
  by (simp add: pool1_disk_evicted_eq pool1_disk_eq resident_at_def disk_0_5_def FetchPage_def
      ReadPage_def empty_disk_def nested_never_returns)

subsection \<open>C3: pin counts and eligibility for eviction\<close>

text \<open>
  C3 states that a frame with a positive pin count is never selectable by \<open>Evict\<close>, and
  that \<open>FetchPage\<close> on a resident page marks the frame non-evictable. The code increments
  the pin count on a hit and does not call \<open>SetEvictable\<close>, which \<open>NewPage\<close> does for the
  frame it returns. After page 0 is created, unpinned and fetched again, frame 0 has pin
  count 1, is still selectable and is the frame \<open>Evict\<close> returns; the next \<open>NewPage\<close> evicts
  it and returns page 1 in it while page 0 is held.
\<close>

theorem FetchPage_hit_leaves_frame_evictable:
  "resident_at pool1_unpinned 0 0 \<and>
   map_option fst (FetchPage 0 pool1_unpinned) = Some (Some 0) \<and>
   pin_count (pages (snd (the (FetchPage 0 pool1_unpinned))) ! 0) = 1 \<and>
   selectable (snd (the (FetchPage 0 pool1_unpinned))) 0 \<and>
   map_option fst (Evict (replacer (snd (the (FetchPage 0 pool1_unpinned))))) = Some 0 \<and>
   map_option fst (NewPage (snd (the (FetchPage 0 pool1_unpinned)))) = Some (Some (1, 0))"
  by (simp add: pool1_unpinned_eq resident_at_def selectable_def manager_defs replacer_defs)

text \<open>
  The converse direction of C3 does not hold either, by the design of the free list: in
  the fresh pool frame 0 has pin count zero and is not selectable.
\<close>

lemma free_frame_not_selectable:
  "pin_count (pages pool1 ! 0) = 0 \<and> \<not> selectable pool1 0 \<and> free_list pool1 = [0]"
  by (simp add: pool1_eq selectable_def)

subsection \<open>C4: a failed disk read in FetchPage\<close>




subsection \<open>C5: what a successful NewPage returns\<close>

text \<open>
  C5 states that a successful \<open>NewPage\<close> returns its frame with pin count 1, zeroed and
  clean, whether the frame comes from the free list or from eviction. The earlier version
  sets the pin count only when it resets a victim: on the fresh pool it returns page 0 in
  frame 0 with pin count 0, where the complete version returns it with pin count 1.
\<close>

theorem NewPage_src_free_frame_unpinned:
  "fst (NewPage_src pool1) = Some (0, 0) \<and>
   pin_count (pages (snd (NewPage_src pool1)) ! 0) = 0 \<and>
   map_option fst (NewPage pool1) = Some (Some (0, 0)) \<and>
   pin_count (pages (snd (the (NewPage pool1))) ! 0) = 1"
  by (simp add: pool1_eq NewPage_src_def NewPage_frame_src_def manager_defs replacer_defs)

text \<open>
  The complete version sets the pin count on both paths but resets the bytes and the
  dirty flag on the eviction path only. A frame of the free list can be dirty once the
  Page Table holds the entry of an evicted page: \<open>pool1_stale\<close> is reached by creating and
  unpinning page 0, creating page 1 (which evicts page 0 and keeps its entry), unpinning
  and deleting page 1, fetching page 0 (a hit on the kept entry, on a frame of the free
  list) and unpinning it dirty. \<open>NewPage\<close> then returns page 2 in frame 0 with the dirty
  flag set.
\<close>

lemma NewPage_free_frame_keeps_dirty:
  "free_list pool1_stale = [0] \<and> is_dirty (pages pool1_stale ! 0) \<and>
   map_option fst (NewPage pool1_stale) = Some (Some (2, 0)) \<and>
   is_dirty (pages (snd (the (NewPage pool1_stale))) ! 0)"
  by (simp add: pool1_stale_eq manager_defs replacer_defs)

subsection \<open>C6: FlushPage\<close>

text \<open>
  C6 states that \<open>FlushPage p\<close> returns false, writes nothing and changes nothing whenever
  \<open>p\<close> is not resident. The code looks at the Page Table entry only. In \<open>pool1_evicted\<close>
  page 0 was evicted and is not resident, page 1 is resident in frame 0, and the disk does
  not hold page 0; \<open>FlushPage 0\<close> returns true and writes the bytes of frame 0, the frame
  of page 1, to disk under the identifier 0. The entry it follows is the one eviction
  left behind (C1).
\<close>

theorem FlushPage_of_evicted_page:
  "\<not> resident_at pool1_evicted 0 0 \<and> resident_at pool1_evicted 1 0 \<and>
   disk_manager pool1_evicted 0 = None \<and>
   fst (FlushPage 0 pool1_evicted) = True \<and>
   disk_manager (snd (FlushPage 0 pool1_evicted)) 0 = Some (data (pages pool1_evicted ! 0)) \<and>
   snd (FlushPage 0 pool1_evicted) \<noteq> pool1_evicted"
proof -
  have "disk_manager (snd (FlushPage 0 pool1_evicted)) 0 \<noteq> disk_manager pool1_evicted 0"
    by (simp add: pool1_evicted_eq FlushPage_def WritePage_def INVALID_PAGE_ID_def)
  then have "snd (FlushPage 0 pool1_evicted) \<noteq> pool1_evicted" by metis
  then show ?thesis
    by (simp add: pool1_evicted_eq resident_at_def FlushPage_def WritePage_def INVALID_PAGE_ID_def)
qed

subsection \<open>C7: UnpinPage refuses\<close>

text \<open>
  C7 states that \<open>UnpinPage p d\<close> returns false and changes nothing whenever \<open>p\<close> is not
  resident. The code looks at the Page Table entry only. In \<open>pool1_evicted\<close> page 0 is not
  resident and page 1 is resident in frame 0 with pin count 1; \<open>UnpinPage 0 true\<close> returns
  true, takes the pin count of frame 0 to zero, marks the frame dirty and makes it
  selectable by \<open>Evict\<close>, while page 1 is held. The entry it follows is the one eviction
  left behind (C1).
\<close>

theorem UnpinPage_of_evicted_page:
  "\<not> resident_at pool1_evicted 0 0 \<and> resident_at pool1_evicted 1 0 \<and>
   pin_count (pages pool1_evicted ! 0) = 1 \<and> \<not> is_dirty (pages pool1_evicted ! 0) \<and>
   \<not> selectable pool1_evicted 0 \<and>
   fst (UnpinPage 0 True pool1_evicted) = True \<and>
   pin_count (pages (snd (UnpinPage 0 True pool1_evicted)) ! 0) = 0 \<and>
   is_dirty (pages (snd (UnpinPage 0 True pool1_evicted)) ! 0) \<and>
   selectable (snd (UnpinPage 0 True pool1_evicted)) 0"
  by (simp add: pool1_evicted_eq resident_at_def selectable_def UnpinPage_def SetEvictable_def
      INVALID_PAGE_ID_def)

text \<open>
  The double unpin of C7 holds for a page that is held once. With two holders both of two
  consecutive calls return true, as they should: page 0 created and fetched once more has
  pin count 2.
\<close>

lemma UnpinPage_twice_held_twice:
  "pin_count (pages (snd (the (FetchPage 0 pool1_created))) ! 0) = 2 \<and>
   fst (UnpinPage 0 False (snd (the (FetchPage 0 pool1_created)))) = True \<and>
   fst (UnpinPage 0 False (snd (UnpinPage 0 False (snd (the (FetchPage 0 pool1_created)))))) = True"
  by (simp add: pool1_created_eq FetchPage_def UnpinPage_def SetEvictable_def)

subsection \<open>C8: the dirty flag under UnpinPage\<close>

text \<open>
  C8, as amended: for a page with a Page Table entry whose frame has a positive pin count,
  \<open>UnpinPage p true\<close> sets the frame's dirty flag; \<open>UnpinPage p false\<close> leaves the dirty flag
  as it is, whatever the pin count; and when the pin count is zero (or less) \<open>UnpinPage\<close>
  returns false and changes nothing, the dirty flag included, also for \<open>is_dirty = true\<close>.
\<close>

theorem UnpinPage_dirty_when_pinned:
  assumes "page_table s p = Some f" and "f < length (pages s)"
  shows "(0 < pin_count (pages s ! f) \<longrightarrow> is_dirty (pages (snd (UnpinPage p True s)) ! f)) \<and>
         is_dirty (pages (snd (UnpinPage p False s)) ! f) = is_dirty (pages s ! f) \<and>
         (pin_count (pages s ! f) \<le> 0 \<longrightarrow> UnpinPage p d s = (False, s))"
  using assms by (simp add: UnpinPage_def Let_def)

text \<open>
  Page 0 pinned and clean: unpinning it dirty sets the flag, unpinning it clean does not.
  Page 0 of \<open>pool1_stale\<close>, unpinned and dirty: a clean unpin is refused and the flag stays.
\<close>

theorem UnpinPage_dirty_when_pinned_witness:
  "page_table pool1_created 0 = Some 0 \<and> 0 < length (pages pool1_created) \<and>
   0 < pin_count (pages pool1_created ! 0) \<and>
   \<not> is_dirty (pages pool1_created ! 0) \<and>
   is_dirty (pages (snd (UnpinPage 0 True pool1_created)) ! 0) \<and>
   \<not> is_dirty (pages (snd (UnpinPage 0 False pool1_created)) ! 0) \<and>
   page_table pool1_stale 0 = Some 0 \<and> 0 < length (pages pool1_stale) \<and>
   pin_count (pages pool1_stale ! 0) \<le> 0 \<and> is_dirty (pages pool1_stale ! 0) \<and>
   UnpinPage 0 False pool1_stale = (False, pool1_stale) \<and>
   is_dirty (pages (snd (UnpinPage 0 False pool1_stale)) ! 0)"
  using UnpinPage_dirty_when_pinned [where s = pool1_created and p = 0 and f = 0 and d = True]
    UnpinPage_dirty_when_pinned [where s = pool1_stale and p = 0 and f = 0 and d = False]
  by (simp add: pool1_created_eq pool1_stale_eq)

text \<open>
  C8 as stated fails for a resident page that nobody holds: page 0 is resident in frame 0
  with pin count 0, and \<open>UnpinPage 0 true\<close> leaves the frame clean.
\<close>

theorem UnpinPage_dirty_counterexample:
  "resident_at pool1_unpinned 0 0 \<and>
   \<not> is_dirty (pages (snd (UnpinPage 0 True pool1_unpinned)) ! 0)"
  by (simp add: pool1_unpinned_eq resident_at_def UnpinPage_def INVALID_PAGE_ID_def)

subsection \<open>C9: DeletePage on a page that is not resident\<close>

text \<open>
  C9 states that \<open>DeletePage p\<close> returns true and changes nothing whenever \<open>p\<close> is not
  resident. The code looks at the Page Table entry only. Page 0, evicted, is not resident
  and page 1 is resident in frame 0. While page 1 is pinned (\<open>pool1_evicted\<close>),
  \<open>DeletePage 0\<close> returns false. Once page 1 is unpinned (\<open>pool1_both_unpinned\<close>),
  \<open>DeletePage 0\<close> returns true and frees frame 0: the frame joins the free list and is
  bound to no page, while the Page Table still maps page 1 to it. The entry it follows is
  the one eviction left behind (C1).
\<close>

theorem DeletePage_of_evicted_page:
  "\<not> resident_at pool1_evicted 0 0 \<and> fst (DeletePage 0 pool1_evicted) = False \<and>
   \<not> resident_at pool1_both_unpinned 0 0 \<and> resident_at pool1_both_unpinned 1 0 \<and>
   fst (DeletePage 0 pool1_both_unpinned) = True \<and>
   free_list pool1_both_unpinned = [] \<and>
   free_list (snd (DeletePage 0 pool1_both_unpinned)) = [0] \<and>
   page_id (pages (snd (DeletePage 0 pool1_both_unpinned)) ! 0) = INVALID_PAGE_ID \<and>
   page_table (snd (DeletePage 0 pool1_both_unpinned)) 1 = Some 0"
  by (simp add: pool1_evicted_eq pool1_both_unpinned_eq resident_at_def DeletePage_def
      ResetMemory_def Remove_def INVALID_PAGE_ID_def)

subsection \<open>C10: the two versions of NewPage\<close>

text \<open>
  C10, as amended: started from the same state, the two versions of \<open>NewPage\<close> agree as
  follows. With a frame in the free list both return, with the same page identifier and
  frame, and their final states are equal once the pin count of that frame is set to 1.
  With an empty free list and no victim, both return \<^verbatim>\<open>nullptr\<close>; the complete version
  leaves the state unchanged and the earlier version has advanced the allocation counter
  by one. With an empty free list and a clean victim both return, with equal outcome and
  final state. The case of a dirty victim is not part of the statement.
\<close>

theorem NewPage_versions_agree_up_to:
  "(free_list s = f # rest \<longrightarrow>
      NewPage s \<noteq> None \<and>
      fst (NewPage_src s) = fst (the (NewPage s)) \<and>
      snd (the (NewPage s)) =
        (snd (NewPage_src s))\<lparr>pages := (pages (snd (NewPage_src s)))
           [f := (pages (snd (NewPage_src s)) ! f)\<lparr>pin_count := 1\<rparr>]\<rparr>) \<and>
   (free_list s = [] \<and> Evict (replacer s) = None \<longrightarrow>
      NewPage s = Some (None, s) \<and>
      NewPage_src s = (None, s\<lparr>next_page_id := next_page_id s + 1\<rparr>)) \<and>
   (free_list s = [] \<and> Evict (replacer s) = Some (v, r) \<and> \<not> is_dirty (pages s ! v) \<longrightarrow>
      NewPage s = Some (NewPage_src s))"
  using NewPage_src_free [of s f rest] NewPage_src_busy [of s] NewPage_src_clean_victim [of s v r]
  by blast

text \<open>
  The three cases in the pool of one frame: the fresh pool (frame 0 free), the pool with
  page 0 pinned (no frame to be had), the pool with page 0 unpinned and clean (frame 0 is
  the victim).
\<close>

theorem NewPage_versions_agree_up_to_witness:
  "free_list pool1 = [0] \<and> NewPage pool1 \<noteq> None \<and>
   fst (NewPage_src pool1) = fst (the (NewPage pool1)) \<and>
   fst (the (NewPage pool1)) = Some (0, 0) \<and>
   free_list pool1_created = [] \<and> Evict (replacer pool1_created) = None \<and>
   NewPage pool1_created = Some (None, pool1_created) \<and>
   fst (NewPage_src pool1_created) = None \<and> next_page_id (snd (NewPage_src pool1_created)) = 2 \<and>
   free_list pool1_unpinned = [] \<and> fst (the (Evict (replacer pool1_unpinned))) = 0 \<and>
   \<not> is_dirty (pages pool1_unpinned ! 0) \<and>
   NewPage pool1_unpinned = Some (NewPage_src pool1_unpinned) \<and>
   fst (NewPage_src pool1_unpinned) = Some (1, 0)"
proof -
  note e = Evict_pool1_unpinned
  have n: "map_option fst (NewPage pool1_unpinned) = Some (Some (1, 0))"
    by (simp add: pool1_unpinned_eq manager_defs replacer_defs)
  have m: "fst (the (NewPage pool1)) = Some (0, 0)"
    by (simp add: NewPage_pool1)
  have b: "Evict (replacer pool1_created) = None"
    by (simp add: pool1_created_eq replacer_defs)
  from NewPage_versions_agree_up_to [where s = pool1 and f = 0 and rest = "[]"]
    NewPage_versions_agree_up_to [where s = pool1_created]
    NewPage_versions_agree_up_to [where s = pool1_unpinned and v = 0
      and r = "\<lparr>replacer_k = 2, current_timestamp = 0, history = (\<lambda>_. []), evictable = []\<rparr>"]
    e n m b
  show ?thesis
    by (auto simp: pool1_eq pool1_created_eq pool1_unpinned_eq)
qed

text \<open>
  C10 as stated fails: on the fresh pool both versions return page 0 in frame 0, the
  earlier one with pin count 0 and the complete one with pin count 1; on the pool with
  page 0 pinned both return \<^verbatim>\<open>nullptr\<close>, the earlier one with the allocation counter at 2
  and the complete one with the counter still at 1.
\<close>

theorem NewPage_versions_differ:
  "NewPage pool1 \<noteq> None \<and> fst (NewPage_src pool1) = fst (the (NewPage pool1)) \<and>
   pin_count (pages (snd (NewPage_src pool1)) ! 0) = 0 \<and>
   pin_count (pages (snd (the (NewPage pool1))) ! 0) = 1 \<and>
   fst (NewPage_src pool1_created) = None \<and>
   map_option fst (NewPage pool1_created) = Some None \<and>
   next_page_id (snd (NewPage_src pool1_created)) = 2 \<and>
   next_page_id (snd (the (NewPage pool1_created))) = 1"
  by (simp add: pool1_eq pool1_created_eq NewPage_src_def NewPage_frame_src_def
      manager_defs replacer_defs)

end
